theory Spec2Isabelle
  imports Complex_Main
begin

section \<open>Data model (models.py)\<close>

text \<open>
  Primary keys are natural numbers. A nullable foreign key is an \<open>option\<close> of the
  referenced primary key. Timestamps are integers counting microseconds; dates count
  days. Model instances are compared by primary key, as Django's \<open>Model.__eq__\<close> does.
\<close>

type_synonym pk = nat

record DottifyUser =
  du_id :: pk
  du_user :: pk
  display_name :: string

datatype Format = SNGL | RMST | DLUX | COMP | LIVE

record Album =
  album_id :: pk
  cover_image :: "string option"
  album_title :: string
  artist_name :: string
  artist_account :: "pk option"
  retail_price :: int
  format :: "Format option"
  release_date :: int
  album_slug :: string

record Song =
  song_id :: "pk option"
  song_title :: string
  length_s :: nat
  position :: "nat option"
  song_album :: pk

datatype Visibility = HIDDEN | UNLISTED | PUBLIC

record Playlist =
  playlist_id :: pk
  playlist_name :: string
  playlist_created_at :: int
  playlist_songs :: "pk list"
  visibility :: Visibility
  playlist_owner :: pk

record Rating =
  rating_id :: pk
  stars :: rat
  rating_album :: "pk option"
  rating_created_at :: int

record Comment =
  comment_id :: pk
  comment_text :: string
  comment_playlist :: "pk option"
  comment_owner :: "pk option"

text \<open>The persistent store: one table per model, rows in insertion order.\<close>

record db =
  dottify_users :: "DottifyUser list"
  albums :: "Album list"
  songs :: "Song list"
  playlists :: "Playlist list"
  ratings :: "Rating list"
  comments :: "Comment list"

section \<open>The request's user\<close>

text \<open>
  \<open>request.user\<close> is either Django's \<open>AnonymousUser\<close> (\<open>is_authenticated\<close> is
  False, no groups) or an authenticated \<open>User\<close> with a primary key and the names of
  its groups.
\<close>

record auth_user =
  user_pk :: pk
  groups :: "string list"

datatype request_user = AnonymousUser | Authenticated auth_user

fun is_authenticated :: "request_user \<Rightarrow> bool" where
  "is_authenticated AnonymousUser = False"
| "is_authenticated (Authenticated u) = True"

text \<open>\<open>user.groups.filter(name=g).exists()\<close>\<close>

definition in_group :: "auth_user \<Rightarrow> string \<Rightarrow> bool" where
  "in_group u g = (g \<in> set (groups u))"

text \<open>
  \<open>DottifyUser.objects.get(user=user)\<close>: the profile of the user, or \<open>None\<close> where the
  source catches \<open>DottifyUser.DoesNotExist\<close>.
\<close>

definition DottifyUser_get_user :: "db \<Rightarrow> auth_user \<Rightarrow> DottifyUser option" where
  "DottifyUser_get_user d u = find (\<lambda>p. du_user p = user_pk u) (dottify_users d)"

text \<open>Lookups by primary key (\<open>get_object\<close>, \<open>get_object_or_404\<close>): \<open>None\<close> is Http404.\<close>

definition DottifyUser_get :: "db \<Rightarrow> pk \<Rightarrow> DottifyUser option" where
  "DottifyUser_get d k = find (\<lambda>p. du_id p = k) (dottify_users d)"

definition Album_get :: "db \<Rightarrow> pk \<Rightarrow> Album option" where
  "Album_get d k = find (\<lambda>a. album_id a = k) (albums d)"

definition Song_get :: "db \<Rightarrow> pk \<Rightarrow> Song option" where
  "Song_get d k = find (\<lambda>s. song_id s = Some k) (songs d)"

definition Playlist_get :: "db \<Rightarrow> pk \<Rightarrow> Playlist option" where
  "Playlist_get d k = find (\<lambda>p. playlist_id p = k) (playlists d)"

section \<open>Album search (views.py, album\_search)\<close>

text \<open>
  \<open>title__icontains\<close>: case-insensitive substring match. Letters are folded on the
  ASCII range, as SQLite's LIKE does; no property below depends on the folding.
\<close>

definition lower_char :: "char \<Rightarrow> char" where
  "lower_char c =
     (let n = (of_char c :: nat)
      in if 65 \<le> n \<and> n \<le> 90 then char_of (n + 32) else c)"

fun starts_with :: "string \<Rightarrow> string \<Rightarrow> bool" where
  "starts_with [] ys = True"
| "starts_with (x # xs) [] = False"
| "starts_with (x # xs) (y # ys) = (x = y \<and> starts_with xs ys)"

fun contains :: "string \<Rightarrow> string \<Rightarrow> bool" where
  "contains xs [] = (xs = [])"
| "contains xs (y # ys) = (starts_with xs (y # ys) \<or> contains xs ys)"

definition icontains :: "string \<Rightarrow> string \<Rightarrow> bool" where
  "icontains q t = contains (map lower_char q) (map lower_char t)"

text \<open>
  The results of the views: the HTTP status with what the source passes to it. \<open>Http200\<close>
  carries the template context of a rendered page or the object an API view serialises.
  A redirect names its route with the route's arguments, as \<open>redirect\<close> and
  \<open>reverse_lazy\<close> are called in the source; \<open>Login\<close> is where
  \<open>LoginRequiredMixin\<close> sends an anonymous user.
\<close>

datatype target = Login | Home | UserDetailSlug pk string

datatype 'a response =
    Http200 'a
  | Http302 target
  | Http401 string
  | Http403 string
  | Http404

record search_context =
  sc_albums :: "Album list"
  sc_query :: string
  sc_total_results :: nat

text \<open>
  \<open>album_search(request)\<close>; the second argument is \<open>request.GET\<close>'s entry for \<open>q\<close>
  (\<open>None\<close> when the parameter is missing, so that \<open>.get('q', '')\<close> gives the empty
  string). An empty query is falsy in Python and selects \<open>Album.objects.none()\<close>.
\<close>

definition album_search :: "db \<Rightarrow> request_user \<Rightarrow> string option \<Rightarrow> search_context response" where
  "album_search d user q =
     (if \<not> is_authenticated user then Http401 ''You must be logged in to view this page.''
      else
        let query = (case q of None \<Rightarrow> [] | Some s \<Rightarrow> s);
            found = (if query \<noteq> [] then filter (\<lambda>a. icontains query (album_title a)) (albums d)
                     else [])
        in Http200 \<lparr>sc_albums = found, sc_query = query, sc_total_results = length found\<rparr>)"

section \<open>Home page listing (views.py, HomeView)\<close>

text \<open>\<open>HomeView.get_queryset\<close>: the albums of the home page.\<close>

definition HomeView_get_queryset :: "db \<Rightarrow> request_user \<Rightarrow> Album list" where
  "HomeView_get_queryset d user =
     (case user of
        AnonymousUser \<Rightarrow> albums d
      | Authenticated u \<Rightarrow>
          if in_group u ''DottifyAdmin'' then albums d
          else if in_group u ''Artist'' then
            (case DottifyUser_get_user d u of
               Some dottify_user \<Rightarrow>
                 filter (\<lambda>a. artist_account a = Some (du_id dottify_user)) (albums d)
             | None \<Rightarrow> [])
          else [])"

section \<open>Album detail and rating averages (views.py, AlbumDetailView)\<close>


definition or_zero :: "rat option \<Rightarrow> rat" where
  "or_zero x = (case x of None \<Rightarrow> 0 | Some v \<Rightarrow> if v = 0 then 0 else v)"

definition timedelta_days :: "int \<Rightarrow> int" where
  "timedelta_days n = n * 86400000000"






section \<open>Access to the mutating views (views.py)\<close>

text \<open>
  Every create, update and delete view lists \<open>LoginRequiredMixin\<close> first and a
  \<open>UserPassesTestMixin\<close> second. \<open>LoginRequiredMixin.dispatch\<close> sends an anonymous
  user to the login page before anything else runs; \<open>UserPassesTestMixin.dispatch\<close>
  then calls \<open>test_func\<close> and raises \<open>PermissionDenied\<close> (403) for an authenticated user
  when it returns False. \<open>test_func\<close> of the update and delete views starts with
  \<open>self.get_object()\<close>, which raises Http404 for an unknown primary key.
\<close>

datatype access = LoginRequired | PermissionDenied | NotFound | Granted

definition IsArtistOrAdminMixin_test_func :: "auth_user \<Rightarrow> bool" where
  "IsArtistOrAdminMixin_test_func u = (in_group u ''Artist'' \<or> in_group u ''DottifyAdmin'')"


definition AlbumUpdateView_test_func :: "db \<Rightarrow> auth_user \<Rightarrow> Album \<Rightarrow> bool" where
  "AlbumUpdateView_test_func d u album =
     (if in_group u ''DottifyAdmin'' then True
      else if in_group u ''Artist'' then
        (case DottifyUser_get_user d u of
           Some dottify_user \<Rightarrow> artist_account album = Some (du_id dottify_user)
         | None \<Rightarrow> False)
      else False)"

definition AlbumUpdateView_dispatch :: "db \<Rightarrow> request_user \<Rightarrow> pk \<Rightarrow> access" where
  "AlbumUpdateView_dispatch d user k =
     (case user of
        AnonymousUser \<Rightarrow> LoginRequired
      | Authenticated u \<Rightarrow>
          (case Album_get d k of
             None \<Rightarrow> NotFound
           | Some album \<Rightarrow>
               if AlbumUpdateView_test_func d u album then Granted else PermissionDenied))"

definition AlbumDeleteView_test_func :: "db \<Rightarrow> auth_user \<Rightarrow> Album \<Rightarrow> bool" where
  "AlbumDeleteView_test_func d u album =
     (if in_group u ''DottifyAdmin'' then True
      else
        (case DottifyUser_get_user d u of
           Some dottify_user \<Rightarrow> artist_account album = Some (du_id dottify_user)
         | None \<Rightarrow> False))"

definition AlbumDeleteView_dispatch :: "db \<Rightarrow> request_user \<Rightarrow> pk \<Rightarrow> access" where
  "AlbumDeleteView_dispatch d user k =
     (case user of
        AnonymousUser \<Rightarrow> LoginRequired
      | Authenticated u \<Rightarrow>
          (case Album_get d k of
             None \<Rightarrow> NotFound
           | Some album \<Rightarrow>
               if AlbumDeleteView_test_func d u album then Granted else PermissionDenied))"

definition SongCreateView_dispatch :: "request_user \<Rightarrow> access" where
  "SongCreateView_dispatch user =
     (case user of
        AnonymousUser \<Rightarrow> LoginRequired
      | Authenticated u \<Rightarrow>
          if IsArtistOrAdminMixin_test_func u then Granted else PermissionDenied)"






section \<open>Saving songs (models.py, Song.save)\<close>

text \<open>
  \<open>Song.objects.filter(album=...).order_by("-position").values_list("position",
  flat=True).first()\<close>: the greatest position among the album's songs, \<open>None\<close> when the
  album has no song. A NULL position sorts below every number (SQLite's order), so it
  is returned only when no song of the album has a position.
\<close>

fun max_position :: "nat option \<Rightarrow> nat option \<Rightarrow> nat option" where
  "max_position None y = y"
| "max_position (Some a) None = Some a"
| "max_position (Some a) (Some b) = Some (max a b)"

definition last_pos :: "db \<Rightarrow> pk \<Rightarrow> nat option" where
  "last_pos d album =
     foldr max_position (map position (filter (\<lambda>s. song_album s = album) (songs d))) None"

text \<open>
  \<open>super().save()\<close>, the store's part of saving a song. A song without a primary key is
  inserted under a new key, greater than every key of the table; a song with a key
  replaces the row of that key, or is inserted under it. The store refuses
  (\<open>IntegrityError\<close>) a song whose album does not exist and a second song with the same
  title in the same album (\<open>unique_song_title_per_album\<close>).
\<close>

datatype db_error = IntegrityError

definition new_song_pk :: "db \<Rightarrow> pk" where
  "new_song_pk d = Suc (foldr max (map (\<lambda>s. case song_id s of None \<Rightarrow> 0 | Some k \<Rightarrow> k) (songs d)) 0)"

definition Model_save :: "db \<Rightarrow> Song \<Rightarrow> db_error + (db \<times> Song)" where
  "Model_save d s =
     (if Album_get d (song_album s) = None then Inl IntegrityError
      else if list_ex (\<lambda>t. song_id t \<noteq> song_id s \<and> song_title t = song_title s
                           \<and> song_album t = song_album s) (songs d)
      then Inl IntegrityError
      else
        (case song_id s of
           None \<Rightarrow>
             let s' = s\<lparr>song_id := Some (new_song_pk d)\<rparr>
             in Inr (d\<lparr>songs := songs d @ [s']\<rparr>, s')
         | Some k \<Rightarrow>
             if list_ex (\<lambda>t. song_id t = Some k) (songs d)
             then Inr (d\<lparr>songs := map (\<lambda>t. if song_id t = Some k then s else t) (songs d)\<rparr>, s)
             else Inr (d\<lparr>songs := songs d @ [s]\<rparr>, s)))"

text \<open>\<open>Song.save\<close>; \<open>(last_pos or 0) + 1\<close> reads a missing or zero maximum as zero.\<close>

definition Song_save :: "db \<Rightarrow> Song \<Rightarrow> db_error + (db \<times> Song)" where
  "Song_save d s =
     (let creating = (song_id s = None);
          s1 = (if creating \<and> position s = None
                then s\<lparr>position :=
                       Some ((case last_pos d (song_album s) of None \<Rightarrow> 0 | Some n \<Rightarrow> n) + 1)\<rparr>
                else s)
      in Model_save d s1)"

text \<open>
  \<open>Song.objects.create(title=..., album=..., length=...)\<close>, as the tests create songs:
  a new instance without primary key and without position, saved.
\<close>

definition Song_objects_create :: "db \<Rightarrow> string \<Rightarrow> pk \<Rightarrow> nat \<Rightarrow> db_error + (db \<times> Song)" where
  "Song_objects_create d title album len =
     Song_save d \<lparr>song_id = None, song_title = title, length_s = len,
                  position = None, song_album = album\<rparr>"

text \<open>
  What a client sends to the song API or the song form. \<open>SongSerializer.Meta.fields\<close>
  is \<open>['id', 'title', 'length', 'album']\<close> and \<open>SongForm.Meta.fields\<close> is
  \<open>['title', 'length', 'album']\<close>: a \<open>position\<close> among the submitted data is not a
  field of either and never reaches the instance.
\<close>

record song_data =
  data_title :: string
  data_length :: nat
  data_album :: pk
  data_position :: "nat option"

definition SongSerializer_create :: "db \<Rightarrow> song_data \<Rightarrow> db_error + (db \<times> Song)" where
  "SongSerializer_create d data =
     Song_objects_create d (data_title data) (data_album data) (data_length data)"

section \<open>Creating a song in the browsable interface (views.py, SongCreateView)\<close>

text \<open>
  \<open>SongCreateView.form_valid\<close> for a validated form: \<open>album\<close> is
  \<open>form.cleaned_data['album']\<close> and \<open>instance\<close> is \<open>form.instance\<close>. The result is the
  response with the store after it, or the store's error.
\<close>

definition not_your_album :: string where
  "not_your_album = ''You can only add songs to your own albums.''"

definition no_account :: string where
  "no_account = ''You don'' @ [CHR 0x27] @ ''t have a Dottify user account.''"

definition CreateView_form_valid :: "db \<Rightarrow> Song \<Rightarrow> db_error + (unit response \<times> db)" where
  "CreateView_form_valid d instance =
     (case Song_save d instance of
        Inl e \<Rightarrow> Inl e
      | Inr (d', s) \<Rightarrow> Inr (Http302 Home, d'))"

definition SongCreateView_form_valid ::
    "db \<Rightarrow> auth_user \<Rightarrow> Song \<Rightarrow> Album \<Rightarrow> db_error + (unit response \<times> db)" where
  "SongCreateView_form_valid d u instance album =
     (if in_group u ''Artist'' then
        (case DottifyUser_get_user d u of
           Some dottify_user \<Rightarrow>
             if artist_account album \<noteq> Some (du_id dottify_user)
             then Inr (Http403 not_your_album, d)
             else CreateView_form_valid d instance
         | None \<Rightarrow> Inr (Http403 no_account, d))
      else CreateView_form_valid d instance)"

text \<open>A POST of a valid song form: the access mixins, then \<open>form_valid\<close>.\<close>

definition SongCreateView_post ::
    "db \<Rightarrow> request_user \<Rightarrow> Song \<Rightarrow> Album \<Rightarrow> db_error + (unit response \<times> db)" where
  "SongCreateView_post d user instance album =
     (case user of
        AnonymousUser \<Rightarrow> Inr (Http302 Login, d)
      | Authenticated u \<Rightarrow>
          if IsArtistOrAdminMixin_test_func u
          then SongCreateView_form_valid d u instance album
          else Inr (Http403 [], d))"

section \<open>Profile page and canonical slug (views.py, user\_detail)\<close>








section \<open>Reading one playlist (views.py, PlaylistDetailView; api\_views.py, PlaylistViewSet)\<close>

record playlist_context =
  pc_playlist :: Playlist
  pc_comments :: "Comment list"

text \<open>
  \<open>PlaylistDetailView\<close> is a \<open>DetailView\<close> on the model: \<open>get_object\<close> looks the
  primary key up among all playlists.
\<close>

definition PlaylistDetailView_get :: "db \<Rightarrow> pk \<Rightarrow> playlist_context response" where
  "PlaylistDetailView_get d k =
     (case Playlist_get d k of
        None \<Rightarrow> Http404
      | Some p \<Rightarrow>
          Http200 \<lparr>pc_playlist = p,
                   pc_comments =
                     filter (\<lambda>c. comment_playlist c = Some (playlist_id p)) (comments d)\<rparr>)"

text \<open>
  \<open>PlaylistViewSet\<close> is a \<open>ReadOnlyModelViewSet\<close>: both \<open>list\<close> and \<open>retrieve\<close> start
  from \<open>get_queryset()\<close>, and \<open>retrieve\<close> looks the primary key up in it
  (\<open>get_object\<close>), with Http404 for a key it does not hold.
\<close>

definition PlaylistViewSet_get_queryset :: "db \<Rightarrow> Playlist list" where
  "PlaylistViewSet_get_queryset d = filter (\<lambda>p. visibility p = PUBLIC) (playlists d)"

definition PlaylistViewSet_list :: "db \<Rightarrow> Playlist list response" where
  "PlaylistViewSet_list d = Http200 (PlaylistViewSet_get_queryset d)"

definition PlaylistViewSet_retrieve :: "db \<Rightarrow> pk \<Rightarrow> Playlist response" where
  "PlaylistViewSet_retrieve d k =
     (case find (\<lambda>p. playlist_id p = k) (PlaylistViewSet_get_queryset d) of
        None \<Rightarrow> Http404
      | Some p \<Rightarrow> Http200 p)"

section \<open>Roles\<close>

text \<open>
  The role of a principal as the specification derives it (no function of the source
  computes it): Guest without authentication, else Admin for a member of the group
  DottifyAdmin, else Artist for a member of the group Artist, else Member. The profile
  of a principal is its \<open>DottifyUser\<close>, if it has one.
\<close>

datatype role = Guest | Member | Artist | Admin

definition spec_role :: "request_user \<Rightarrow> role" where
  "spec_role user =
     (case user of
        AnonymousUser \<Rightarrow> Guest
      | Authenticated u \<Rightarrow>
          if in_group u ''DottifyAdmin'' then Admin
          else if in_group u ''Artist'' then Artist
          else Member)"

definition spec_profile :: "db \<Rightarrow> request_user \<Rightarrow> DottifyUser option" where
  "spec_profile d user =
     (case user of AnonymousUser \<Rightarrow> None | Authenticated u \<Rightarrow> DottifyUser_get_user d u)"

text \<open>The album's \<open>artist_account\<close> equals the principal's profile.\<close>

definition is_artist_account :: "db \<Rightarrow> request_user \<Rightarrow> pk option \<Rightarrow> bool" where
  "is_artist_account d user account =
     (case spec_profile d user of None \<Rightarrow> False | Some p \<Rightarrow> account = Some (du_id p))"

section \<open>The data of the tests (test\_views.py, setUp)\<close>

text \<open>
  The album, songs, user, profile, playlist, comment and ratings that \<open>setUp\<close> creates,
  with the second user of \<open>test_delete_permission_denied_for_non_owner\<close>. \<open>test_now\<close> is
  the time of the test run; the old rating is dated 70 days before it.
\<close>

definition test_now :: int where
  "test_now = timedelta_days 20000"

definition album_explosion :: Album where
  "album_explosion =
     \<lparr>album_id = 1, cover_image = Some ''no_cover.jpg'', album_title = ''Explosion!!!'',
      artist_name = ''Megumin'', artist_account = None, retail_price = 299,
      format = Some SNGL, release_date = 20089, album_slug = ''explosion''\<rparr>"

definition song_chunchunmaru :: Song where
  "song_chunchunmaru =
     \<lparr>song_id = Some 1, song_title = ''Chunchunmaru'', length_s = 281, position = Some 1,
      song_album = 1\<rparr>"

definition song_bakuretsu :: Song where
  "song_bakuretsu =
     \<lparr>song_id = Some 2, song_title = ''Bakuretsu Magic'', length_s = 540, position = Some 2,
      song_album = 1\<rparr>"

definition megumin :: auth_user where
  "megumin = \<lparr>user_pk = 1, groups = []\<rparr>"

definition kazuma :: auth_user where
  "kazuma = \<lparr>user_pk = 2, groups = []\<rparr>"

definition profile_megumin :: DottifyUser where
  "profile_megumin = \<lparr>du_id = 1, du_user = 1, display_name = ''explosion!!!''\<rparr>"

definition profile_kazuma :: DottifyUser where
  "profile_kazuma = \<lparr>du_id = 2, du_user = 2, display_name = ''Kazuma''\<rparr>"

definition playlist_degen :: Playlist where
  "playlist_degen =
     \<lparr>playlist_id = 1, playlist_name = ''degen'', playlist_created_at = test_now,
      playlist_songs = [], visibility = PUBLIC, playlist_owner = 1\<rparr>"

definition comment_67 :: Comment where
  "comment_67 =
     \<lparr>comment_id = 1, comment_text = ''typeshit typeshit 67!'', comment_playlist = Some 1,
      comment_owner = Some 1\<rparr>"

definition rating_recent :: Rating where
  "rating_recent = \<lparr>rating_id = 1, stars = 5, rating_album = Some 1, rating_created_at = test_now\<rparr>"

definition rating_old :: Rating where
  "rating_old =
     \<lparr>rating_id = 2, stars = 1, rating_album = Some 1,
      rating_created_at = test_now - timedelta_days 70\<rparr>"

definition test_db :: db where
  "test_db =
     \<lparr>dottify_users = [profile_megumin, profile_kazuma], albums = [album_explosion],
      songs = [song_chunchunmaru, song_bakuretsu], playlists = [playlist_degen],
      ratings = [rating_recent, rating_old], comments = [comment_67]\<rparr>"

text \<open>
  Variations of that data: the album claimed by the second profile, the two users as
  members of groups, a song form's instance, the playlist hidden, the album without
  songs.
\<close>

definition album_of_kazuma :: Album where
  "album_of_kazuma = album_explosion\<lparr>artist_account := Some 2\<rparr>"

definition claimed_db :: db where
  "claimed_db = test_db\<lparr>albums := [album_of_kazuma]\<rparr>"

definition kazuma_artist :: auth_user where
  "kazuma_artist = kazuma\<lparr>groups := [''Artist'']\<rparr>"

definition megumin_admin_artist :: auth_user where
  "megumin_admin_artist = megumin\<lparr>groups := [''DottifyAdmin'', ''Artist'']\<rparr>"

definition megumin_admin :: auth_user where
  "megumin_admin = megumin\<lparr>groups := [''DottifyAdmin'']\<rparr>"

definition new_song :: Song where
  "new_song = \<lparr>song_id = None, song_title = ''Explosion'', length_s = 60, position = None,
               song_album = 1\<rparr>"

definition hidden_db :: db where
  "hidden_db = test_db\<lparr>playlists := [playlist_degen\<lparr>visibility := HIDDEN\<rparr>]\<rparr>"

definition fresh_db :: db where
  "fresh_db = test_db\<lparr>songs := []\<rparr>"

section \<open>Notions used to state the properties\<close>


text \<open>The positions that the songs of an album hold.\<close>

definition album_positions :: "db \<Rightarrow> pk \<Rightarrow> nat list" where
  "album_positions d a =
     concat (map (\<lambda>s. case position s of None \<Rightarrow> [] | Some n \<Rightarrow> [n])
       (filter (\<lambda>s. song_album s = a) (songs d)))"

text \<open>
  The song that saving a new song of the given title and length stores for an album:
  it takes a new primary key and the position one above the greatest position of the
  album's songs, 1 in an album without positioned songs.
\<close>

definition created_song :: "db \<Rightarrow> string \<Rightarrow> pk \<Rightarrow> nat \<Rightarrow> Song" where
  "created_song d title album len =
     \<lparr>song_id = Some (new_song_pk d), song_title = title, length_s = len,
      position = Some (Max (set (0 # album_positions d album)) + 1), song_album = album\<rparr>"

section \<open>Properties\<close>

lemmas fixtures =
  test_db_def claimed_db_def hidden_db_def fresh_db_def album_of_kazuma_def album_explosion_def
  song_chunchunmaru_def song_bakuretsu_def megumin_def kazuma_def kazuma_artist_def
  megumin_admin_artist_def megumin_admin_def profile_megumin_def profile_kazuma_def
  playlist_degen_def comment_67_def rating_recent_def rating_old_def new_song_def

lemmas lookups =
  DottifyUser_get_user_def DottifyUser_get_def Album_get_def Song_get_def Playlist_get_def
  in_group_def

lemma starts_with_Nil: "starts_with [] ys"
  by simp

lemma contains_Nil: "contains [] ys"
  by (cases ys) simp_all

lemma icontains_empty: "icontains [] t"
  by (simp add: icontains_def contains_Nil)

lemma or_zero_Some: "or_zero (Some v) = v"
  by (simp add: or_zero_def)

subsection \<open>Album search\<close>

text \<open>
  C8. For every query string, the empty string and a missing parameter included, an
  album search by an unauthenticated principal answers 401 (Unauthorized) with the
  source's message; it renders no result set, neither an empty nor a scoped one.
\<close>

theorem album_search_unauthenticated:
  "\<not> is_authenticated user \<Longrightarrow>
   album_search d user q = Http401 ''You must be logged in to view this page.''"
  by (simp add: album_search_def)

theorem album_search_unauthenticated_witness:
  "\<not> is_authenticated AnonymousUser
   \<and> album_search test_db AnonymousUser (Some []) =
       Http401 ''You must be logged in to view this page.''
   \<and> album_search test_db AnonymousUser None =
       Http401 ''You must be logged in to view this page.''
   \<and> album_search test_db AnonymousUser (Some ''Christmas Hits'') =
       Http401 ''You must be logged in to view this page.''"
  using album_search_unauthenticated [of AnonymousUser test_db "Some []"]
    album_search_unauthenticated [of AnonymousUser test_db None]
    album_search_unauthenticated [of AnonymousUser test_db "Some ''Christmas Hits''"]
  by simp

text \<open>
  C10. For every authenticated principal, an album search with the empty query string
  (or with no query parameter) renders the empty result set with a total of zero, not
  the set of all albums, although the substring match with the empty string selects
  every album.
\<close>

theorem album_search_empty_query:
  "is_authenticated user \<Longrightarrow>
   album_search d user (Some []) =
     Http200 \<lparr>sc_albums = [], sc_query = [], sc_total_results = 0\<rparr>
   \<and> album_search d user None =
     Http200 \<lparr>sc_albums = [], sc_query = [], sc_total_results = 0\<rparr>
   \<and> filter (\<lambda>a. icontains [] (album_title a)) (albums d) = albums d"
  by (simp add: album_search_def icontains_empty)

theorem album_search_empty_query_witness:
  "is_authenticated (Authenticated megumin)
   \<and> album_search test_db (Authenticated megumin) (Some []) =
       Http200 \<lparr>sc_albums = [], sc_query = [], sc_total_results = 0\<rparr>
   \<and> albums test_db = [album_explosion]
   \<and> icontains [] (album_title album_explosion)"
  using album_search_empty_query [of "Authenticated megumin" test_db]
  by (simp add: test_db_def icontains_empty)

subsection \<open>Access to the mutating views\<close>









subsection \<open>Album update and delete\<close>

text \<open>
  C3, as stated, fails for album delete: a Member whose profile is the album's
  \<open>artist_account\<close> is granted the delete view.
\<close>

theorem album_delete_member_counterexample:
  "spec_role (Authenticated kazuma) = Member
   \<and> Album_get claimed_db 1 = Some album_of_kazuma
   \<and> spec_profile claimed_db (Authenticated kazuma) = Some profile_kazuma
   \<and> artist_account album_of_kazuma = Some (du_id profile_kazuma)
   \<and> AlbumDeleteView_dispatch claimed_db (Authenticated kazuma) 1 = Granted"
  by (simp add: spec_role_def spec_profile_def AlbumDeleteView_dispatch_def
      AlbumDeleteView_test_func_def lookups fixtures)

text \<open>
  C3, amended. For every stored album and every principal: album update is granted
  exactly when the role is Admin, or the role is Artist and the album's
  \<open>artist_account\<close> is the caller's profile (so never to a Member or a Guest, nor to an
  Artist without profile); album delete is granted exactly when the role is Admin, or
  the caller is authenticated, Artist or Member alike, and the album's
  \<open>artist_account\<close> is the caller's profile.
\<close>

theorem album_update_delete_decision:
  assumes "Album_get d k = Some a"
  shows "(AlbumUpdateView_dispatch d user k = Granted \<longleftrightarrow>
            spec_role user = Admin
            \<or> (spec_role user = Artist \<and> is_artist_account d user (artist_account a)))
       \<and> (AlbumDeleteView_dispatch d user k = Granted \<longleftrightarrow>
            spec_role user = Admin
            \<or> (spec_role user \<noteq> Guest \<and> is_artist_account d user (artist_account a)))"
  using assms
  by (cases user)
    (auto simp add: AlbumUpdateView_dispatch_def AlbumUpdateView_test_func_def
      AlbumDeleteView_dispatch_def AlbumDeleteView_test_func_def
      spec_role_def spec_profile_def is_artist_account_def split: option.splits)

theorem album_update_delete_decision_witness:
  "Album_get claimed_db 1 = Some album_of_kazuma
   \<and> spec_role (Authenticated kazuma_artist) = Artist
   \<and> is_artist_account claimed_db (Authenticated kazuma_artist) (artist_account album_of_kazuma)
   \<and> AlbumUpdateView_dispatch claimed_db (Authenticated kazuma_artist) 1 = Granted
   \<and> AlbumDeleteView_dispatch claimed_db (Authenticated kazuma_artist) 1 = Granted"
proof -
  have a: "Album_get claimed_db 1 = Some album_of_kazuma"
    by (simp add: lookups fixtures)
  have r: "spec_role (Authenticated kazuma_artist) = Artist"
    by (simp add: spec_role_def lookups fixtures)
  have o: "is_artist_account claimed_db (Authenticated kazuma_artist) (artist_account album_of_kazuma)"
    by (simp add: is_artist_account_def spec_profile_def lookups fixtures)
  from album_update_delete_decision [OF a, of "Authenticated kazuma_artist"] a r o
  show ?thesis by simp
qed

subsection \<open>Song creation by a principal in both groups\<close>

text \<open>
  C4. A principal in both groups, DottifyAdmin and Artist, has the role Admin; the song
  create view still runs the Artist's ownership check on it and answers 403 for an
  album of another profile, where a principal in the group DottifyAdmin alone is
  served and the song is saved.
\<close>

theorem song_create_admin_artist_forbidden:
  "spec_role (Authenticated megumin_admin_artist) = Admin
   \<and> spec_profile claimed_db (Authenticated megumin_admin_artist) = Some profile_megumin
   \<and> artist_account album_of_kazuma \<noteq> Some (du_id profile_megumin)
   \<and> SongCreateView_dispatch (Authenticated megumin_admin_artist) = Granted
   \<and> SongCreateView_post claimed_db (Authenticated megumin_admin_artist) new_song album_of_kazuma =
       Inr (Http403 not_your_album, claimed_db)
   \<and> spec_role (Authenticated megumin_admin) = Admin
   \<and> (case SongCreateView_post claimed_db (Authenticated megumin_admin) new_song album_of_kazuma of
         Inl e \<Rightarrow> False
       | Inr (r, d') \<Rightarrow> r = Http302 Home \<and> map position (songs d') = [Some 1, Some 2, Some 3])"
  by (simp add: spec_role_def spec_profile_def SongCreateView_dispatch_def
      SongCreateView_post_def SongCreateView_form_valid_def IsArtistOrAdminMixin_test_func_def
      CreateView_form_valid_def Song_save_def Model_save_def last_pos_def new_song_pk_def
      Let_def lookups fixtures)

subsection \<open>Album listing\<close>

text \<open>
  C2, as stated, fails for a Member: the home page lists no album for an authenticated
  user who is in neither group, while the store holds one.
\<close>

theorem home_albums_member_counterexample:
  "spec_role (Authenticated kazuma) = Member
   \<and> HomeView_get_queryset test_db (Authenticated kazuma) = []
   \<and> albums test_db = [album_explosion]
   \<and> HomeView_get_queryset test_db (Authenticated kazuma) \<noteq> albums test_db"
  by (simp add: spec_role_def HomeView_get_queryset_def lookups fixtures)

text \<open>
  C2, amended. The album listing of the home page is scoped by role: a Guest lists all
  albums, an Admin lists all albums, an Artist with a profile lists exactly the albums
  whose \<open>artist_account\<close> is that profile, an Artist without profile lists none, and a
  Member lists none.
\<close>

theorem home_albums_by_role:
  "HomeView_get_queryset d user =
     (case spec_role user of
        Guest \<Rightarrow> albums d
      | Admin \<Rightarrow> albums d
      | Artist \<Rightarrow>
          (case spec_profile d user of
             Some p \<Rightarrow> filter (\<lambda>a. artist_account a = Some (du_id p)) (albums d)
           | None \<Rightarrow> [])
      | Member \<Rightarrow> [])"
  by (cases user) (simp_all add: HomeView_get_queryset_def spec_role_def spec_profile_def)

subsection \<open>Reading one playlist\<close>

lemma find_filter_distinct:
  "distinct (map f xs) \<Longrightarrow> find (\<lambda>x. f x = k) xs = Some p \<Longrightarrow>
   find (\<lambda>x. f x = k) (filter P xs) = (if P p then Some p else None)"
proof (induction xs)
  case Nil
  then show ?case by simp
next
  case (Cons x xs)
  show ?case
  proof (cases "f x = k")
    case True
    with Cons.prems have px: "p = x" by simp
    from True Cons.prems have "k \<notin> f ` set xs" by simp
    then have "\<forall>y \<in> set xs. f y \<noteq> k" by blast
    then have "find (\<lambda>x. f x = k) (filter P xs) = None"
      by (simp add: find_None_iff)
    with True px show ?thesis by simp
  next
    case False
    with Cons show ?thesis by simp
  qed
qed

text \<open>
  C5, as stated, fails at the API: a Hidden playlist is rendered by the browsable
  detail view and is not found (404) by the API's retrieve.
\<close>

theorem hidden_playlist_counterexample:
  "Playlist_get hidden_db 1 = Some (playlist_degen\<lparr>visibility := HIDDEN\<rparr>)
   \<and> PlaylistDetailView_get hidden_db 1 =
       Http200 \<lparr>pc_playlist = playlist_degen\<lparr>visibility := HIDDEN\<rparr>, pc_comments = [comment_67]\<rparr>
   \<and> PlaylistViewSet_retrieve hidden_db 1 = Http404"
  by (simp add: PlaylistDetailView_get_def PlaylistViewSet_retrieve_def
      PlaylistViewSet_get_queryset_def lookups fixtures)

text \<open>
  C5, amended. For every stored playlist (primary keys being unique), the browsable
  detail view renders it by id whatever its visibility and whoever asks; the API's
  retrieve returns it by id when it is Public and answers 404 when it is Hidden or
  Unlisted.
\<close>

theorem playlist_read_one:
  assumes "distinct (map playlist_id (playlists d))" and "Playlist_get d k = Some p"
  shows "PlaylistDetailView_get d k =
           Http200 \<lparr>pc_playlist = p,
                    pc_comments = filter (\<lambda>c. comment_playlist c = Some (playlist_id p)) (comments d)\<rparr>
       \<and> PlaylistViewSet_retrieve d k = (if visibility p = PUBLIC then Http200 p else Http404)"
  using assms find_filter_distinct [of playlist_id "playlists d" k p "\<lambda>p. visibility p = PUBLIC"]
  by (simp add: PlaylistDetailView_get_def PlaylistViewSet_retrieve_def
      PlaylistViewSet_get_queryset_def Playlist_get_def)

theorem playlist_read_one_witness:
  "distinct (map playlist_id (playlists test_db))
   \<and> Playlist_get test_db 1 = Some playlist_degen
   \<and> PlaylistDetailView_get test_db 1 =
       Http200 \<lparr>pc_playlist = playlist_degen, pc_comments = [comment_67]\<rparr>
   \<and> PlaylistViewSet_retrieve test_db 1 = Http200 playlist_degen"
proof -
  have d: "distinct (map playlist_id (playlists test_db))"
    by (simp add: fixtures)
  have g: "Playlist_get test_db 1 = Some playlist_degen"
    by (simp add: lookups fixtures)
  have c: "filter (\<lambda>c. comment_playlist c = Some (playlist_id playlist_degen)) (comments test_db)
           = [comment_67]"
    by (simp add: fixtures)
  have v: "visibility playlist_degen = PUBLIC"
    by (simp add: fixtures)
  from playlist_read_one [OF d g] d g c v show ?thesis by simp
qed

subsection \<open>Rating averages\<close>



subsection \<open>Canonical slug\<close>



subsection \<open>Song positions\<close>

lemma Max_set_Cons: "Max (set (a # x # xs)) = max a (Max (set (x # xs)))"
proof -
  have n: "set (x # xs) \<noteq> {}" by simp
  have "Max (insert a (set (x # xs))) = max a (Max (set (x # xs)))"
    using finite_set n by (rule Max_insert)
  then show ?thesis by simp
qed

lemma foldr_max_position:
  "(case foldr max_position ps None of None \<Rightarrow> 0 | Some n \<Rightarrow> n) =
   Max (set (0 # concat (map (\<lambda>p. case p of None \<Rightarrow> [] | Some n \<Rightarrow> [n]) ps)))"
proof (induction ps)
  case Nil
  show ?case by simp
next
  case (Cons p ps)
  let ?rest = "concat (map (\<lambda>p. case p of None \<Rightarrow> [] | Some n \<Rightarrow> [n]) ps)"
  show ?case
  proof (cases p)
    case None
    with Cons show ?thesis by simp
  next
    case (Some a)
    have e: "set (0 # a # ?rest) = set (a # 0 # ?rest)"
      by auto
    have m: "Max (set (0 # a # ?rest)) = max a (Max (set (0 # ?rest)))"
      unfolding e by (rule Max_set_Cons)
    have c: "concat (map (\<lambda>p. case p of None \<Rightarrow> [] | Some n \<Rightarrow> [n]) (p # ps)) = a # ?rest"
      using Some by simp
    show ?thesis
    proof (cases "foldr max_position ps None")
      case None
      with Cons.IH have z: "Max (set (0 # ?rest)) = 0" by simp
      from None Some have "foldr max_position (p # ps) None = Some a" by simp
      with z m c show ?thesis by (simp only: option.case max_0R)
    next
      case (Some b)
      with Cons.IH have z: "Max (set (0 # ?rest)) = b" by simp
      from Some \<open>p = Some a\<close> have "foldr max_position (p # ps) None = Some (max a b)" by simp
      with z m c show ?thesis by (simp only: option.case)
    qed
  qed
qed

lemma last_pos_Max:
  "(case last_pos d a of None \<Rightarrow> 0 | Some n \<Rightarrow> n) = Max (set (0 # album_positions d a))"
  using foldr_max_position [of "map position (filter (\<lambda>s. song_album s = a) (songs d))"]
  by (simp add: last_pos_def album_positions_def comp_def)

lemma Album_get_songs_update: "Album_get (d\<lparr>songs := ss\<rparr>) a = Album_get d a"
  by (simp add: Album_get_def)

lemma album_positions_append:
  "album_positions (d\<lparr>songs := songs d @ [s]\<rparr>) a =
   album_positions d a @
     (if song_album s = a then (case position s of None \<Rightarrow> [] | Some n \<Rightarrow> [n]) else [])"
  by (simp add: album_positions_def)

lemma Song_save_new:
  assumes "song_id s = None" and "position s = None"
    and "Album_get d (song_album s) \<noteq> None"
    and "\<not> list_ex (\<lambda>t. song_title t = song_title s \<and> song_album t = song_album s) (songs d)"
  shows "Song_save d s =
     Inr (d\<lparr>songs := songs d @ [created_song d (song_title s) (song_album s) (length_s s)]\<rparr>,
          created_song d (song_title s) (song_album s) (length_s s))"
proof -
  from assms(4) have u: "\<not> list_ex (\<lambda>t. song_id t \<noteq> None \<and> song_title t = song_title s
      \<and> song_album t = song_album s) (songs d)"
    by (auto simp add: list_ex_iff)
  have e: "s\<lparr>position := Some (Max (set (0 # album_positions d (song_album s))) + 1),
             song_id := Some (new_song_pk d)\<rparr> =
           created_song d (song_title s) (song_album s) (length_s s)"
    by (simp add: created_song_def)
  from assms(1-3) u e show ?thesis
    by (simp add: Song_save_def Model_save_def last_pos_Max Let_def)
qed

lemma Song_objects_create_new:
  assumes "Album_get d a \<noteq> None"
    and "\<not> list_ex (\<lambda>t. song_title t = title \<and> song_album t = a) (songs d)"
  shows "Song_objects_create d title a len =
     Inr (d\<lparr>songs := songs d @ [created_song d title a len]\<rparr>, created_song d title a len)"
  using assms
    Song_save_new [of "\<lparr>song_id = None, song_title = title, length_s = len,
                        position = None, song_album = a\<rparr>" d]
  by (simp add: Song_objects_create_def)

lemma Song_save_position:
  assumes "song_id s = None" and "position s = None" and "Song_save d s = Inr (d', s')"
  shows "position s' = Some (Max (set (0 # album_positions d (song_album s))) + 1)"
  using assms
  by (auto simp add: Song_save_def Model_save_def last_pos_Max Let_def split: if_splits)

lemma three_songs:
  assumes al: "Album_get d a \<noteq> None"
    and fresh: "filter (\<lambda>s. song_album s = a) (songs d) = []"
    and t: "t1 \<noteq> t2" "t1 \<noteq> t3" "t2 \<noteq> t3"
  shows "\<exists>d1 s1 d2 s2 d3 s3.
           Song_objects_create d t1 a l1 = Inr (d1, s1)
           \<and> Song_objects_create d1 t2 a l2 = Inr (d2, s2)
           \<and> Song_objects_create d2 t3 a l3 = Inr (d3, s3)
           \<and> position s1 = Some 1 \<and> position s2 = Some 2 \<and> position s3 = Some 3
           \<and> filter (\<lambda>s. song_album s = a) (songs d3) = [s1, s2, s3]"
proof -
  define s1 where "s1 = created_song d t1 a l1"
  define d1 where "d1 = d\<lparr>songs := songs d @ [s1]\<rparr>"
  define s2 where "s2 = created_song d1 t2 a l2"
  define d2 where "d2 = d1\<lparr>songs := songs d1 @ [s2]\<rparr>"
  define s3 where "s3 = created_song d2 t3 a l3"
  define d3 where "d3 = d2\<lparr>songs := songs d2 @ [s3]\<rparr>"
  from fresh have none: "\<forall>s \<in> set (songs d). song_album s \<noteq> a"
    by (simp add: filter_empty_conv)
  have p0: "album_positions d a = []"
    by (simp add: album_positions_def fresh)
  have f1: "song_title s1 = t1" "song_album s1 = a" "position s1 = Some 1"
    by (simp_all add: s1_def created_song_def p0)
  have p1: "album_positions d1 a = [1]"
    by (simp add: d1_def album_positions_append p0 f1)
  have f2: "song_title s2 = t2" "song_album s2 = a" "position s2 = Some 2"
    by (simp_all add: s2_def created_song_def p1)
  have p2: "album_positions d2 a = [1, 2]"
    by (simp add: d2_def album_positions_append p1 f2)
  have f3: "song_title s3 = t3" "song_album s3 = a" "position s3 = Some 3"
    by (simp_all add: s3_def created_song_def p2)
  have c1: "Song_objects_create d t1 a l1 = Inr (d1, s1)"
    unfolding d1_def s1_def
    by (rule Song_objects_create_new [OF al]) (use none in \<open>auto simp add: list_ex_iff\<close>)
  have al1: "Album_get d1 a \<noteq> None"
    using al by (simp add: d1_def Album_get_songs_update)
  have c2: "Song_objects_create d1 t2 a l2 = Inr (d2, s2)"
    unfolding d2_def s2_def
    by (rule Song_objects_create_new [OF al1])
      (use none t f1 in \<open>auto simp add: list_ex_iff d1_def\<close>)
  have al2: "Album_get d2 a \<noteq> None"
    using al1 by (simp add: d2_def Album_get_songs_update)
  have c3: "Song_objects_create d2 t3 a l3 = Inr (d3, s3)"
    unfolding d3_def s3_def
    by (rule Song_objects_create_new [OF al2])
      (use none t f1 f2 in \<open>auto simp add: list_ex_iff d1_def d2_def\<close>)
  have l: "filter (\<lambda>s. song_album s = a) (songs d3) = [s1, s2, s3]"
    by (simp add: d3_def d2_def d1_def fresh f1 f2 f3)
  from c1 c2 c3 f1(3) f2(3) f3(3) l show ?thesis by blast
qed

text \<open>
  C9. Creating three songs of different titles in sequence under a stored album without
  songs succeeds and gives them the positions 1, 2 and 3 in the order of creation.
  The position of a new song is the greatest position among the album's songs (0
  when there is none) plus one, and it is not taken from the client: the data a client
  submits may name a position, and the song created is the same without it.
\<close>

theorem song_positions:
  "(Album_get d a \<noteq> None \<and> filter (\<lambda>s. song_album s = a) (songs d) = []
      \<and> t1 \<noteq> t2 \<and> t1 \<noteq> t3 \<and> t2 \<noteq> t3 \<longrightarrow>
      (\<exists>d1 s1 d2 s2 d3 s3.
           Song_objects_create d t1 a l1 = Inr (d1, s1)
           \<and> Song_objects_create d1 t2 a l2 = Inr (d2, s2)
           \<and> Song_objects_create d2 t3 a l3 = Inr (d3, s3)
           \<and> position s1 = Some 1 \<and> position s2 = Some 2 \<and> position s3 = Some 3
           \<and> filter (\<lambda>s. song_album s = a) (songs d3) = [s1, s2, s3]))
   \<and> (song_id s = None \<and> position s = None \<and> Song_save e s = Inr (e', s') \<longrightarrow>
        position s' = Some (Max (set (0 # album_positions e (song_album s))) + 1))
   \<and> SongSerializer_create e (data\<lparr>data_position := p\<rparr>) = SongSerializer_create e data"
  using three_songs [of d a t1 t2 t3 l1 l2 l3] Song_save_position [of s e e' s']
  by (simp add: SongSerializer_create_def)

theorem song_positions_witness:
  "Album_get fresh_db 1 \<noteq> None
   \<and> filter (\<lambda>s. song_album s = 1) (songs fresh_db) = []
   \<and> (\<exists>d1 s1 d2 s2 d3 s3.
         Song_objects_create fresh_db ''Chunchunmaru'' 1 281 = Inr (d1, s1)
         \<and> Song_objects_create d1 ''Bakuretsu Magic'' 1 540 = Inr (d2, s2)
         \<and> Song_objects_create d2 ''Explosion'' 1 60 = Inr (d3, s3)
         \<and> position s1 = Some 1 \<and> position s2 = Some 2 \<and> position s3 = Some 3
         \<and> filter (\<lambda>s. song_album s = 1) (songs d3) = [s1, s2, s3])
   \<and> Song_save fresh_db new_song = Inr (fresh_db\<lparr>songs := [new_song\<lparr>song_id := Some 1, position := Some 1\<rparr>]\<rparr>, new_song\<lparr>song_id := Some 1, position := Some 1\<rparr>)
   \<and> position (new_song\<lparr>song_id := Some 1, position := Some 1\<rparr>) =
        Some (Max (set (0 # album_positions fresh_db (song_album new_song))) + 1)"
proof -
  have a: "Album_get fresh_db 1 \<noteq> None"
    by (simp add: lookups fixtures)
  have f: "filter (\<lambda>s. song_album s = 1) (songs fresh_db) = []"
    by (simp add: fixtures)
  have t: "''Chunchunmaru'' \<noteq> ''Bakuretsu Magic''" "''Chunchunmaru'' \<noteq> ''Explosion''"
    "''Bakuretsu Magic'' \<noteq> ''Explosion''"
    by simp_all
  have n: "song_id new_song = None" "position new_song = None"
    by (simp_all add: new_song_def)
  have v: "Song_save fresh_db new_song = Inr (fresh_db\<lparr>songs := [new_song\<lparr>song_id := Some 1, position := Some 1\<rparr>]\<rparr>, new_song\<lparr>song_id := Some 1, position := Some 1\<rparr>)"
    by (simp add: Song_save_def Model_save_def last_pos_def new_song_pk_def Let_def
        lookups fixtures)
  from song_positions [of fresh_db 1 "''Chunchunmaru''" "''Bakuretsu Magic''" "''Explosion''"
      281 540 60 new_song fresh_db _ "new_song\<lparr>song_id := Some 1, position := Some 1\<rparr>"]
    a f t n v
  show ?thesis by simp
qed

end
